theory Spec2Isabelle
  imports Main "HOL-Library.AList" "HOL-Library.Sublist"
begin

section \<open>Strings: the Python string operations used by the scripts\<close>

text \<open>
  Python strings are modelled as \<^typ>\<open>string\<close>. An index returned by \<open>str.rfind\<close> is an
  \<^typ>\<open>int\<close>, because \<open>-1\<close> is a value the code computes with. The slices \<open>s[:i]\<close> and
  \<open>s[i:]\<close> follow Python: a negative bound counts from the end and every bound is clipped
  to the string.
\<close>

definition slice_to :: "string \<Rightarrow> int \<Rightarrow> string" where
  "slice_to s i = (if i < 0 then take (nat (int (length s) + i)) s else take (nat i) s)"

definition slice_from :: "string \<Rightarrow> int \<Rightarrow> string" where
  "slice_from s i = (if i < 0 then drop (nat (int (length s) + i)) s else drop (nat i) s)"

text \<open>\<open>s.rfind(c)\<close> for a one-character \<open>c\<close>: the highest index holding \<open>c\<close>, or \<open>-1\<close>.\<close>

fun rfind :: "string \<Rightarrow> char \<Rightarrow> int" where
  "rfind [] c = -1"
| "rfind (x # xs) c =
     (let r = rfind xs c in if r \<noteq> -1 then r + 1 else if x = c then 0 else -1)"

text \<open>
  \<open>s.replace(old, '')\<close>: the occurrences of \<open>old\<close> are found from the left, without
  overlap, and deleted. With an empty \<open>old\<close> Python returns \<open>s\<close> unchanged.
\<close>

function replace_del :: "string \<Rightarrow> string \<Rightarrow> string" where
  "replace_del old [] = []"
| "replace_del old (c # cs) =
     (if old \<noteq> [] \<and> prefix old (c # cs)
      then replace_del old (drop (length old) (c # cs))
      else c # replace_del old cs)"
  by pat_completeness auto
termination
  by (relation "measure (\<lambda>(old, s). length s)") (auto simp: Suc_le_eq)

text \<open>\<open>os.path.basename\<close> on POSIX: everything after the last slash.\<close>

definition basename :: "string \<Rightarrow> string" where
  "basename p = slice_from p (rfind p CHR ''/'' + 1)"

text \<open>\<open>os.path.join(a, b)\<close> on POSIX.\<close>

definition path_join :: "string \<Rightarrow> string \<Rightarrow> string" where
  "path_join a b =
     (if prefix ''/'' b then b
      else if a = [] \<or> suffix ''/'' a then a @ b
      else a @ ''/'' @ b)"

text \<open>\<open>s.endswith(suffix)\<close> and \<open>sub in s\<close>.\<close>

definition endswith :: "string \<Rightarrow> string \<Rightarrow> bool" where
  "endswith s suf = suffix suf s"

fun contains :: "string \<Rightarrow> string \<Rightarrow> bool" where
  "contains sub [] = (sub = [])"
| "contains sub (c # cs) = (prefix sub (c # cs) \<or> contains sub cs)"

section \<open>Logical names of companion archives\<close>

definition atomzip_suffix :: string where
  "atomzip_suffix = ''_foxml_atomzip.zip''"

text \<open>
  The local variables \<open>zip_filename\<close>, \<open>collection_name\<close> and \<open>pid\<close> of
  \<open>format_drush_command_from_atomzip\<close>, and the command it formats from them.
\<close>

definition zip_filename :: "string \<Rightarrow> string" where
  "zip_filename zip_path = replace_del atomzip_suffix (basename zip_path)"

definition collection_name :: "string \<Rightarrow> string" where
  "collection_name zip_path =
     (let f = zip_filename zip_path; last_underscore_index = rfind f CHR ''_''
      in slice_to f last_underscore_index)"

definition pid :: "string \<Rightarrow> string" where
  "pid zip_path =
     (let f = zip_filename zip_path; last_underscore_index = rfind f CHR ''_''
      in slice_from f (last_underscore_index + 1))"

definition format_drush_command_from_atomzip :: "string \<Rightarrow> string" where
  "format_drush_command_from_atomzip zip_path =
     ''drush @dsu --user=1 create-islandora-bag object '' @
     collection_name zip_path @ '':'' @ pid zip_path"

definition get_bag_name_from_atomzip :: "string \<Rightarrow> string" where
  "get_bag_name_from_atomzip atomzip_path = replace_del atomzip_suffix (basename atomzip_path)"

section \<open>Record trees\<close>

text \<open>
  An \<open>xml.etree.ElementTree.Element\<close>: tag, attribute dictionary (insertion ordered, so an
  association list), text, tail and the list of children (\<open>text\<close> and \<open>tail\<close> are
  the selectors \<open>elem_text\<close> and \<open>elem_tail\<close>). A tag in a namespace is the
  string \<open>{uri}local\<close>, as ElementTree stores it.
\<close>

datatype element =
  Element (tag: string) (attrib: "(string \<times> string) list")
    (elem_text: "string option") (elem_tail: "string option") (children: "element list")

text \<open>\<open>e.get(key)\<close> and \<open>e.set(key, value)\<close>.\<close>

definition get_attr :: "element \<Rightarrow> string \<Rightarrow> string option" where
  "get_attr e k = map_of (attrib e) k"

definition set_attr :: "element \<Rightarrow> string \<Rightarrow> string \<Rightarrow> element" where
  "set_attr e k v = Element (tag e) (AList.update k v (attrib e)) (elem_text e) (elem_tail e) (children e)"

text \<open>
  The truth value of an element, as in \<open>if element:\<close>. ElementTree defines it as
  \<open>len(element) != 0\<close>: an element without children is false.
\<close>

definition truthy :: "element \<Rightarrow> bool" where
  "truthy e = (children e \<noteq> [])"

text \<open>\<open>e.iter()\<close>: the element and all its descendants in document order.\<close>

fun iter :: "element \<Rightarrow> element list" where
  "iter (Element t a x y cs) = Element t a x y cs # concat (map iter cs)"

text \<open>
  The path \<open>.//T\<close> of ElementPath selects, for the context element \<open>e\<close>, every element of
  \<open>e.iter(T)\<close> other than \<open>e\<close> itself; a predicate \<open>[@k='v']\<close> keeps those whose \<open>get(k)\<close>
  equals \<open>v\<close>. \<open>findall\<close> returns the list, \<open>find\<close> its first element or \<open>None\<close>.
\<close>

definition descendants :: "element \<Rightarrow> element list" where
  "descendants e = concat (map iter (children e))"

definition foxml_tag :: "string \<Rightarrow> string" where
  "foxml_tag local = ''{info:fedora/fedora-system:def/foxml#}'' @ local"

definition is_MODS_datastream :: "element \<Rightarrow> bool" where
  "is_MODS_datastream d =
     (tag d = foxml_tag ''datastream'' \<and> get_attr d ''ID'' = Some ''MODS'')"

definition find_MODS_datastream :: "element \<Rightarrow> element option" where
  "find_MODS_datastream root = List.find is_MODS_datastream (descendants root)"

section \<open>The classifier\<close>

definition is_foxml_managed :: "element \<Rightarrow> bool" where
  "is_foxml_managed foxml_root =
     (case find_MODS_datastream foxml_root of
        Some datastream_element \<Rightarrow>
          (let control_group = get_attr datastream_element ''CONTROL_GROUP''
           in control_group = Some ''M'')
      | None \<Rightarrow> False)"

section \<open>Errors\<close>

text \<open>
  The exceptions the modelled code can raise. A function that can raise returns
  \<open>py_error + 'a\<close>, with \<open>Inl\<close> for the exception; \<open>ParseError\<close> carries the message
  \<open>str(e)\<close>, which the locator inspects.
\<close>

datatype py_error =
  ParseError string | UnicodeDecodeError | BadZipFile | KeyError | TypeError
  | AttributeError | ValueError | UnboundLocalError | FileExistsError | OSError

section \<open>Archives\<close>

text \<open>
  A member of a zip archive as the \<open>zipfile\<close> library presents it to the code: its name,
  its bytes decoded as UTF-8 (\<open>None\<close> when \<open>bytes.decode('utf-8')\<close> raises) and the
  archive obtained by opening its bytes with \<open>zipfile.ZipFile\<close> (\<open>None\<close> when that
  raises \<open>BadZipFile\<close>). An archive handle is the list of its members in the order of
  \<open>namelist()\<close>.
\<close>

datatype zmember =
  ZMember (zname: string) (zdecoded: "string option") (zlisting: "zmember list option")

type_synonym archive = "zmember list"

definition namelist :: "archive \<Rightarrow> string list" where
  "namelist zip_ref = map zname zip_ref"

text \<open>
  \<open>zip_ref.open(name)\<close> and \<open>zip_ref.read(name)\<close> look the name up in the archive's
  name table, in which a later member replaces an earlier one of the same name.
\<close>

fun getinfo :: "archive \<Rightarrow> string \<Rightarrow> zmember option" where
  "getinfo [] name = None"
| "getinfo (m # ms) name =
     (case getinfo ms name of
        Some m' \<Rightarrow> Some m'
      | None \<Rightarrow> if zname m = name then Some m else None)"

section \<open>The locator\<close>

text \<open>
  \<open>re.search(r'\.zip$', name) is not None\<close>: \<open>$\<close> matches at the end of the string and
  before a newline that ends the string.
\<close>

definition is_container :: "string \<Rightarrow> bool" where
  "is_container name = (endswith name ''.zip'' \<or> endswith name (''.zip'' @ [CHR 0x0A]))"

text \<open>
  A match of the pattern \<open><\?xml[^>]+\?>\<close> at the start of \<open>s\<close>, as its length. After
  \<open><?xml\<close> the class \<open>[^>]+\<close> can only run up to the first \<open>>\<close>, so there is a match
  exactly when that run has at least two characters and ends in \<open>?\<close>.
\<close>

definition match_declaration :: "string \<Rightarrow> nat option" where
  "match_declaration s =
     (if prefix ''<?xml'' s then
        (let r = drop 5 s; body = takeWhile (\<lambda>c. c \<noteq> CHR ''>'') r
         in if length body < length r \<and> 2 \<le> length body \<and> last body = CHR ''?''
            then Some (5 + length body + 1) else None)
      else None)"

text \<open>
  \<open>re.sub(r"(<\?xml[^>]+\?>)", r"\1<root>", s)\<close>: every match, found from the left
  without overlap, is followed by \<open><root>\<close>.
\<close>

function sub_root :: "string \<Rightarrow> string" where
  "sub_root [] = []"
| "sub_root (c # cs) =
     (case match_declaration (c # cs) of
        Some n \<Rightarrow> take n (c # cs) @ ''<root>'' @ sub_root (drop n (c # cs))
      | None \<Rightarrow> c # sub_root cs)"
  by pat_completeness auto
termination
  by (relation "measure length") (auto simp: match_declaration_def Let_def split: if_splits)

definition repair :: "string \<Rightarrow> string" where
  "repair xml = sub_root xml @ ''</root>''"

text \<open>
  The XML parser \<open>ET.fromstring\<close> is a parameter \<open>fromstring\<close> of the model: it returns the
  parsed tree, or \<open>Inl\<close> the message of the \<open>ParseError\<close> it raises. \<open>read_xml\<close> is the
  body of the branch that reads and parses a matching member.
\<close>

type_synonym xml_parser = "string \<Rightarrow> string + element"

definition read_xml :: "xml_parser \<Rightarrow> zmember \<Rightarrow> py_error + element option" where
  "read_xml fromstring m =
     (case zdecoded m of
        None \<Rightarrow> Inl UnicodeDecodeError
      | Some xml \<Rightarrow>
         (case fromstring xml of
            Inr tree \<Rightarrow> Inr (Some tree)
          | Inl error_message \<Rightarrow>
              if contains ''junk after document element'' error_message
              then (case fromstring (repair xml) of
                      Inr tree \<Rightarrow> Inr (Some tree)
                    | Inl msg \<Rightarrow> Inl (ParseError msg))
              else Inl (ParseError error_message)))"

text \<open>\<open>if nested_result:\<close> holds for a result that is not \<open>None\<close> and is a true element.\<close>

definition truthy_result :: "element option \<Rightarrow> bool" where
  "truthy_result r = (case r of None \<Rightarrow> False | Some e \<Rightarrow> truthy e)"

lemma getinfo_mem: "getinfo zip_ref name = Some m \<Longrightarrow> m \<in> set zip_ref"
  by (induction zip_ref) (auto split: option.splits if_splits)

lemma zlisting_size:
  "m \<in> set zip_ref \<Longrightarrow> zlisting m = Some nested \<Longrightarrow> size_list size nested < size_list size zip_ref"
  by (cases m) (auto intro!: size_list_estimation[where x = m])

text \<open>
  The loop of \<open>get_XML_tree_zip_file\<close> over the names still to visit. The target is an
  option because one caller passes \<open>element.get('ID')\<close>, which is \<open>None\<close> for a missing
  attribute; \<open>None in filename\<close> raises \<open>TypeError\<close>.
\<close>

function search_names ::
  "xml_parser \<Rightarrow> string option \<Rightarrow> archive \<Rightarrow> string list \<Rightarrow> py_error + element option" where
  "search_names fromstring target zip_ref [] = Inr None"
| "search_names fromstring target zip_ref (name # names) =
     (if is_container name then
        (case getinfo zip_ref name of
           None \<Rightarrow> Inl KeyError
         | Some m \<Rightarrow>
            (case zlisting m of
               None \<Rightarrow> Inl BadZipFile
             | Some nested_zip_ref \<Rightarrow>
                (case search_names fromstring target nested_zip_ref (map zname nested_zip_ref) of
                   Inl e \<Rightarrow> Inl e
                 | Inr nested_result \<Rightarrow>
                     if truthy_result nested_result then Inr nested_result
                     else search_names fromstring target zip_ref names)))
      else
        (case target of
           None \<Rightarrow> Inl TypeError
         | Some target_filename \<Rightarrow>
             if contains target_filename (basename name) then
               (case getinfo zip_ref name of
                  None \<Rightarrow> Inl KeyError
                | Some m \<Rightarrow> read_xml fromstring m)
             else search_names fromstring target zip_ref names))"
  by pat_completeness auto
termination
  by (relation "measures [\<lambda>(f, t, z, ns). size_list size z, \<lambda>(f, t, z, ns). length ns]")
    (auto dest!: getinfo_mem intro: zlisting_size)

definition get_XML_tree_zip_file ::
  "xml_parser \<Rightarrow> string option \<Rightarrow> archive \<Rightarrow> py_error + element option" where
  "get_XML_tree_zip_file fromstring target_filename zip_ref =
     search_names fromstring target_filename zip_ref (map zname zip_ref)"

section \<open>The transformer\<close>

definition set_children :: "element \<Rightarrow> element list \<Rightarrow> element" where
  "set_children e cs = Element (tag e) (attrib e) (elem_text e) (elem_tail e) cs"

text \<open>
  \<open>value.split('}', 1)[1]\<close> under the guard \<open>'}' in value\<close>, applied to the tag and to
  every attribute value of every element of \<open>mods_root.iter()\<close>.
\<close>

definition strip_prefix :: "string \<Rightarrow> string" where
  "strip_prefix s =
     (if CHR ''}'' \<in> set s then tl (dropWhile (\<lambda>c. c \<noteq> CHR ''}'') s) else s)"

fun strip_namespaces :: "element \<Rightarrow> element" where
  "strip_namespaces (Element t a x y ks) =
     Element (strip_prefix t) (map (\<lambda>(k, v). (k, strip_prefix v)) a) x y
       (map strip_namespaces ks)"

text \<open>
  The \<open>foxml:xmlContent\<close> element built for one version: a \<open>mods\<close> element carrying the
  four namespace declarations, extended with the children of the stripped \<open>mods_root\<close>.
\<close>

definition xml_content_element :: "element \<Rightarrow> element" where
  "xml_content_element mods_root =
     Element (foxml_tag ''xmlContent'') [] None None
       [Element ''mods''
          [(''xmlns'', ''http://www.loc.gov/mods/v3''),
           (''xmlns:mods'', ''http://www.loc.gov/mods/v3''),
           (''xmlns:xsi'', ''http://www.w3.org/2001/XMLSchema-instance''),
           (''xmlns:xlink'', ''http://www.w3.org/1999/xlink'')]
          None None (children (strip_namespaces mods_root))]"

text \<open>
  \<open>datastream_version_element.find(".//foxml:contentLocation")\<close> is the first descendant
  with that tag. \<open>remove\<close> deletes it when it is a child of the version element and raises
  \<open>ValueError\<close> when it lies deeper. Elements are objects in Python and \<open>remove\<close> compares
  by identity, so the model works with the position of the found element:
  \<open>child_index\<close> is its index among the children, or \<open>None\<close> when the first descendant
  with the tag is not a child.
\<close>

fun child_index :: "string \<Rightarrow> element list \<Rightarrow> nat option" where
  "child_index t [] = None"
| "child_index t (c # cs) =
     (if tag c = t then Some 0
      else if \<exists>d \<in> set (descendants c). tag d = t then None
      else map_option Suc (child_index t cs))"

definition removal :: "element \<Rightarrow> py_error + nat option" where
  "removal datastream_version_element =
     (case List.find (\<lambda>d. tag d = foxml_tag ''contentLocation'')
             (descendants datastream_version_element) of
        None \<Rightarrow> Inr None
      | Some content_location_element \<Rightarrow>
          if truthy content_location_element
          then (case child_index (foxml_tag ''contentLocation'')
                       (children datastream_version_element) of
                  None \<Rightarrow> Inl ValueError
                | Some i \<Rightarrow> Inr (Some i))
          else Inr None)"

definition drop_child :: "nat option \<Rightarrow> element list \<Rightarrow> element list" where
  "drop_child ri cs = (case ri of None \<Rightarrow> cs | Some i \<Rightarrow> take i cs @ drop (Suc i) cs)"

text \<open>
  The content fetched for one version: the locator is run on the bag archive with the
  version's \<open>ID\<close>; \<open>mods_root.iter()\<close> on a \<open>None\<close> result raises \<open>AttributeError\<close>.
\<close>

definition embedded_content :: "xml_parser \<Rightarrow> archive \<Rightarrow> element \<Rightarrow> py_error + element" where
  "embedded_content fromstring bag_archive datastream_version_element =
     (case get_XML_tree_zip_file fromstring (get_attr datastream_version_element ''ID'')
             bag_archive of
        Inl e \<Rightarrow> Inl e
      | Inr None \<Rightarrow> Inl AttributeError
      | Inr (Some mods_root) \<Rightarrow> Inr (xml_content_element mods_root))"

text \<open>
  One iteration of the loop over \<open>datastream_version_elements\<close>, for the element \<open>e\<close>:
  the exception raised if any, the index of the child removed if any, and the elements
  appended to \<open>e\<close>. An element that is not a version element is not in the list, and a
  version element without children fails the test \<open>if datastream_version_element:\<close>.
\<close>

definition visit ::
  "xml_parser \<Rightarrow> archive \<Rightarrow> element \<Rightarrow> py_error option \<times> nat option \<times> element list" where
  "visit fromstring bag_archive e =
     (if tag e = foxml_tag ''datastreamVersion'' \<and> truthy e then
        (case removal e of
           Inl err \<Rightarrow> (Some err, None, [])
         | Inr ri \<Rightarrow>
            (case embedded_content fromstring bag_archive e of
               Inl err \<Rightarrow> (Some err, ri, [])
             | Inr content \<Rightarrow> (None, ri, [content])))
      else (None, None, []))"

text \<open>
  The loop itself. \<open>findall(".//foxml:datastreamVersion")\<close> lists the version elements
  below the datastream in document order before anything is changed, and an iteration
  edits only the child list of its own element. So the loop is a traversal in document
  order of the elements as they were: an element is visited, then its original children
  are traversed (also those of a child that was just removed, which is still in the
  list), then its later siblings. The first exception ends the traversal and leaves the
  edits made so far.
\<close>

fun inline_versions ::
  "xml_parser \<Rightarrow> archive \<Rightarrow> element list \<Rightarrow> py_error option \<times> element list" where
  "inline_versions fromstring bag_archive [] = (None, [])"
| "inline_versions fromstring bag_archive (Element t a x y ks # es) =
     (case visit fromstring bag_archive (Element t a x y ks) of
        (Some err, ri, app) \<Rightarrow> (Some err, Element t a x y (drop_child ri ks @ app) # es)
      | (None, ri, app) \<Rightarrow>
         (case inline_versions fromstring bag_archive ks of
            (Some err, ks') \<Rightarrow> (Some err, Element t a x y (drop_child ri ks' @ app) # es)
          | (None, ks') \<Rightarrow>
             (case inline_versions fromstring bag_archive es of
                (err, es') \<Rightarrow> (err, Element t a x y (drop_child ri ks' @ app) # es'))))"

text \<open>
  The datastream found by \<open>find\<close> is an object inside the tree and is changed in place:
  \<open>replace_first\<close> puts the changed element at the position of the first descendant
  satisfying the test.
\<close>

fun replace_first :: "(element \<Rightarrow> bool) \<Rightarrow> element \<Rightarrow> element list \<Rightarrow> element list option" where
  "replace_first P new [] = None"
| "replace_first P new (Element t a x y ks # cs) =
     (if P (Element t a x y ks) then Some (new # cs)
      else (case replace_first P new ks of
              Some ks' \<Rightarrow> Some (Element t a x y ks' # cs)
            | None \<Rightarrow> map_option ((#) (Element t a x y ks)) (replace_first P new cs)))"

text \<open>
  \<open>managed_to_inline\<close> returns \<open>None\<close> and mutates the tree; the model returns the
  exception raised, if any, and the tree as the call leaves it. When \<open>find\<close> returns
  \<open>None\<close>, \<open>datastream.set\<close> raises \<open>AttributeError\<close>.
\<close>

definition managed_to_inline ::
  "xml_parser \<Rightarrow> element \<Rightarrow> archive \<Rightarrow> py_error option \<times> element" where
  "managed_to_inline fromstring foxml_root bag_archive =
     (case find_MODS_datastream foxml_root of
        None \<Rightarrow> (Some AttributeError, foxml_root)
      | Some datastream0 \<Rightarrow>
         (let datastream = set_attr datastream0 ''CONTROL_GROUP'' ''X'';
              (err, cs) = inline_versions fromstring bag_archive (children datastream);
              datastream' = set_children datastream cs
          in (err,
              case replace_first is_MODS_datastream datastream' (children foxml_root) of
                None \<Rightarrow> foxml_root
              | Some cs' \<Rightarrow> set_children foxml_root cs')))"

section \<open>Processing one container archive\<close>

text \<open>
  What \<open>process_container_zip\<close> does outside the functions above goes through the
  operating system. The model takes those effects as an environment: the XML parser and
  serialiser, the two subprocesses, the opening of a zip file and the two file-system
  operations, over a file-system state of any type \<open>'fs\<close>.
  \<^item> \<open>run_drush\<close> maps the command to the path that
    \<open>extract_bag_path_from_drush_command_stdout\<close> finds in the standard output of
    \<open>subprocess.run\<close>, \<open>None\<close> when it finds none.
  \<^item> \<open>run_xmllint\<close> maps the text piped to \<open>xmllint --format -\<close> to what
    \<open>Popen\<close> and \<open>communicate(timeout=10)\<close> do: the process exits with a return code,
    standard output and standard error, or the wait times out, or starting it raises.
  \<^item> \<open>open_zipfile\<close> is \<open>zipfile.ZipFile(path, 'r')\<close>, \<open>None\<close> when it raises.
  \<^item> \<open>error_text\<close> is \<open>str(e)\<close>.
\<close>

datatype formatter_result =
  Exited int string string | TimeoutExpired | SpawnFailed py_error

record 'fs env =
  parse_xml :: xml_parser
  serialize :: "element \<Rightarrow> string"
  run_drush :: "string \<Rightarrow> string option"
  open_zipfile :: "string \<Rightarrow> archive option"
  run_xmllint :: "string \<Rightarrow> formatter_result"
  makedirs :: "'fs \<Rightarrow> string \<Rightarrow> py_error + 'fs"
  write_file :: "'fs \<Rightarrow> string \<Rightarrow> string \<Rightarrow> py_error + 'fs"
  error_text :: "py_error \<Rightarrow> string"

text \<open>
  The state a call works on: the local variables that live across iterations of the
  loop (\<open>None\<close> for a local that is not bound yet), the global list
  \<open>bag_name_and_new_foxml\<close>, the lines printed (the message texts, without the colour
  codes printed around them) and the file system.
\<close>

record 'fs state =
  found_first_atomzip :: bool
  formatted_xml_string :: "string option"
  converted_foxml_path :: "string option"
  bag_name_and_new_foxml :: "(string \<times> string) list"
  printed :: "string list"
  files :: 'fs

text \<open>
  A step returns normally with a state, or an exception leaves it, which ends the call
  of \<open>process_container_zip\<close> with the state reached.
\<close>

datatype 'fs outcome = Returned "'fs state" | Raised py_error "'fs state"

definition print_line :: "string \<Rightarrow> 'fs state \<Rightarrow> 'fs state" where
  "print_line msg st = st\<lparr>printed := printed st @ [msg]\<rparr>"

text \<open>
  The lines from the serialisation of the tree to the append to the global list: the
  \<open>try\<close> block around the formatter and the write, its two handlers, and the append
  after it. Inside the block an exception goes to the handler \<open>except Exception\<close>,
  which prints it; the assignments made before it stay. \<open>open(path, 'w')\<close> creates the
  file before the argument of \<open>write\<close> is evaluated, so an unbound
  \<open>formatted_xml_string\<close> leaves an empty file.
\<close>

definition save_formatted ::
  "'fs env \<Rightarrow> string \<Rightarrow> string \<Rightarrow> 'fs state \<Rightarrow> 'fs state" where
  "save_formatted env output_directory bag_name st =
     (let foxml_save_directory = path_join output_directory bag_name in
      case makedirs env (files st) foxml_save_directory of
        Inl e \<Rightarrow> print_line (''An error occurred: '' @ error_text env e) st
      | Inr fs1 \<Rightarrow>
         (let path = foxml_save_directory @ ''/foxml.xml'';
              st1 = st\<lparr>files := fs1, converted_foxml_path := Some path\<rparr>
          in case formatted_xml_string st1 of
               None \<Rightarrow>
                 (case write_file env fs1 path [] of
                    Inl e \<Rightarrow> print_line (''An error occurred: '' @ error_text env e) st1
                  | Inr fs2 \<Rightarrow>
                      print_line (''An error occurred: '' @ error_text env UnboundLocalError)
                        (st1\<lparr>files := fs2\<rparr>))
             | Some formatted \<Rightarrow>
                 (case write_file env fs1 path formatted of
                    Inl e \<Rightarrow> print_line (''An error occurred: '' @ error_text env e) st1
                  | Inr fs2 \<Rightarrow> st1\<lparr>files := fs2\<rparr>)))"

definition format_and_record ::
  "'fs env \<Rightarrow> string \<Rightarrow> string \<Rightarrow> element \<Rightarrow> 'fs state \<Rightarrow> 'fs outcome" where
  "format_and_record env output_directory bag_name foxml_root st =
     (let xml_string = serialize env foxml_root;
          st' =
            (case run_xmllint env xml_string of
               SpawnFailed e \<Rightarrow> print_line (''An error occurred: '' @ error_text env e) st
             | TimeoutExpired \<Rightarrow> print_line ''Process took too long to execute.'' st
             | Exited returncode stdout stderr \<Rightarrow>
                 save_formatted env output_directory bag_name
                   (if returncode \<noteq> 0
                    then print_line stderr (print_line ''Error occurred while formatting XML:'' st)
                    else st\<lparr>formatted_xml_string := Some stdout\<rparr>))
      in case converted_foxml_path st' of
           None \<Rightarrow> Raised UnboundLocalError st'
         | Some path \<Rightarrow>
             Returned (st'\<lparr>bag_name_and_new_foxml :=
                             bag_name_and_new_foxml st' @ [(bag_name, path)]\<rparr>))"

text \<open>
  The classification and the transformation of a located tree. The handler around
  \<open>managed_to_inline\<close> prints the exception and lets the item go on with the tree as
  the failed call left it. \<open>is_foxml_managed(None)\<close> raises \<open>AttributeError\<close>.
\<close>

definition classify_and_transform ::
  "'fs env \<Rightarrow> archive \<Rightarrow> string \<Rightarrow> element \<Rightarrow> 'fs state \<Rightarrow> element \<times> 'fs state" where
  "classify_and_transform env zip_archive bag_name foxml_root st =
     (if is_foxml_managed foxml_root then
        (let st1 = print_line (bag_name @ '' contains a managed FOXML file. Making it inline.'') st
         in case managed_to_inline (parse_xml env) foxml_root zip_archive of
              (None, root') \<Rightarrow> (root', st1)
            | (Some e, root') \<Rightarrow>
                (root',
                 print_line
                   (''There was an error with converting '' @ bag_name @
                    [CHR 0x27] @ ''s FOXML to inline; conversion will be skipped: '' @
                    error_text env e) st1))
      else
        (foxml_root,
         print_line
           (bag_name @ '' contains an inline FOXML file. This will simply beautify it.'') st))"

definition process_located ::
  "'fs env \<Rightarrow> string \<Rightarrow> archive \<Rightarrow> string \<Rightarrow> py_error + element option \<Rightarrow> 'fs state \<Rightarrow>
   'fs outcome" where
  "process_located env output_directory zip_archive bag_name located st =
     (case located of
        Inl e \<Rightarrow> Raised e st
      | Inr None \<Rightarrow> Raised AttributeError st
      | Inr (Some foxml_root) \<Rightarrow>
          (case classify_and_transform env zip_archive bag_name foxml_root st of
             (root', st') \<Rightarrow> format_and_record env output_directory bag_name root' st'))"

text \<open>The body of the loop over \<open>zip_archive.namelist()\<close>, for one name.\<close>

definition process_name ::
  "'fs env \<Rightarrow> string \<Rightarrow> string \<Rightarrow> archive \<Rightarrow> string \<Rightarrow> 'fs state \<Rightarrow> 'fs outcome" where
  "process_name env input_zip output_directory zip_archive name st =
     (if contains ''data/'' name \<and> endswith name atomzip_suffix then
        (let bag_name = get_bag_name_from_atomzip name in
         if \<not> found_first_atomzip st \<and> \<not> contains name input_zip then
           process_located env output_directory zip_archive bag_name
             (get_XML_tree_zip_file (parse_xml env) (Some ''foxml.xml'') zip_archive)
             (st\<lparr>found_first_atomzip := True\<rparr>)
         else
           (case run_drush env (format_drush_command_from_atomzip name) of
              None \<Rightarrow>
                Returned (print_line
                  (''Drush command failed for '' @ name @ ''. Skipping this bag.'') st)
            | Some bag_path \<Rightarrow>
               (case open_zipfile env bag_path of
                  None \<Rightarrow> Raised BadZipFile st
                | Some bag_archive \<Rightarrow>
                    process_located env output_directory zip_archive bag_name
                      (get_XML_tree_zip_file (parse_xml env) (Some ''foxml.xml'') bag_archive)
                      st)))
      else Returned st)"

fun process_names ::
  "'fs env \<Rightarrow> string \<Rightarrow> string \<Rightarrow> archive \<Rightarrow> string list \<Rightarrow> 'fs state \<Rightarrow> 'fs outcome" where
  "process_names env input_zip output_directory zip_archive [] st = Returned st"
| "process_names env input_zip output_directory zip_archive (name # names) st =
     (case process_name env input_zip output_directory zip_archive name st of
        Raised e st' \<Rightarrow> Raised e st'
      | Returned st' \<Rightarrow> process_names env input_zip output_directory zip_archive names st')"

text \<open>
  \<open>process_container_zip\<close>, given the global state the call starts from; its locals
  start unbound.
\<close>

definition process_container_zip ::
  "'fs env \<Rightarrow> string \<Rightarrow> string \<Rightarrow> string \<Rightarrow> 'fs state \<Rightarrow> 'fs outcome" where
  "process_container_zip env input_dir return_directory input_zip st0 =
     (let st = st0\<lparr>found_first_atomzip := False, formatted_xml_string := None,
                    converted_foxml_path := None\<rparr> in
      if \<not> endswith (basename input_zip) ''.zip'' then Returned st
      else
        (let output_directory =
               return_directory @ ''/'' @ replace_del ''.zip'' (basename input_zip) in
         case makedirs env (files st) output_directory of
           Inl e \<Rightarrow> Raised e st
         | Inr fs1 \<Rightarrow>
            (case open_zipfile env (input_dir @ ''/'' @ input_zip) of
               None \<Rightarrow> Raised BadZipFile (st\<lparr>files := fs1\<rparr>)
             | Some zip_archive \<Rightarrow>
                 process_names env input_zip output_directory zip_archive
                   (namelist zip_archive) (st\<lparr>files := fs1\<rparr>))))"

section \<open>The logical name as the specification words it\<close>

text \<open>
  The specification derives the logical name by stripping the suffix
  \<open>_foxml_atomzip.zip\<close> from the file name and splitting the remainder on its last
  underscore. These two definitions follow those words, for comparison with
  \<open>collection_name\<close> and \<open>pid\<close> above, which follow the code.
\<close>

definition spec_strip_suffix :: "string \<Rightarrow> string" where
  "spec_strip_suffix filename =
     (if suffix atomzip_suffix filename
      then take (length filename - length atomzip_suffix) filename else filename)"

definition spec_logical_name :: "string \<Rightarrow> string \<times> string" where
  "spec_logical_name filename =
     (let r = spec_strip_suffix filename; i = nat (rfind r CHR ''_'')
      in (take i r, drop (Suc i) r))"



section \<open>Predicates on archives\<close>




section \<open>Example records\<close>

definition mods_datastream :: "string \<Rightarrow> element list \<Rightarrow> element" where
  "mods_datastream control_group versions =
     Element (foxml_tag ''datastream'') [(''ID'', ''MODS''), (''CONTROL_GROUP'', control_group)]
       None None versions"

definition dc_datastream :: element where
  "dc_datastream =
     Element (foxml_tag ''datastream'') [(''ID'', ''DC''), (''CONTROL_GROUP'', ''X'')]
       None None []"

definition digital_object :: "element list \<Rightarrow> element" where
  "digital_object datastreams =
     Element (foxml_tag ''digitalObject'') [(''PID'', ''acme:1'')] None None datastreams"

definition bare_mods_datastream :: element where
  "bare_mods_datastream = Element (foxml_tag ''datastream'') [(''ID'', ''MODS'')] None None []"

text \<open>
  Documents for the examples, and a parser to run them with: \<open>example_fromstring\<close>
  answers each of these documents as \<open>ET.fromstring\<close> does, the tree or the message
  of the \<open>ParseError\<close>. It stands for the parser in closed examples only; every theorem
  about the code holds for any parser.
\<close>

definition mods_text :: string where
  \<open>mods_text = ''<mods xmlns="http://www.loc.gov/mods/v3"><titleInfo/></mods>''\<close>

definition mods_tree :: element where
  "mods_tree =
     Element ''{http://www.loc.gov/mods/v3}mods'' [] None None
       [Element ''{http://www.loc.gov/mods/v3}titleInfo'' [] None None []]"

definition concatenated_text :: string where
  \<open>concatenated_text = ''<?xml version="1.0"?><a/><?xml version="1.0"?><b/>''\<close>

definition two_roots_text :: string where
  \<open>two_roots_text = ''<?xml version="1.0"?><a/><b/>''\<close>

definition content_location :: element where
  "content_location =
     Element (foxml_tag ''contentLocation'')
       [(''TYPE'', ''INTERNAL_ID''), (''REF'', ''acme:1+MODS+MODS.0'')] None None []"

definition mods_version :: "element list \<Rightarrow> element" where
  "mods_version cs =
     Element (foxml_tag ''datastreamVersion'') [(''ID'', ''MODS.0''), (''MIMETYPE'', ''text/xml'')]
       None None cs"

definition managed_record :: element where
  "managed_record =
     digital_object [dc_datastream, mods_datastream ''M'' [mods_version [content_location]]]"

definition foxml_text :: string where
  \<open>foxml_text = ''<foxml:digitalObject xmlns:foxml="info:fedora/fedora-system:def/foxml#" PID="acme:1"><foxml:datastream ID="DC" CONTROL_GROUP="X"/><foxml:datastream ID="MODS" CONTROL_GROUP="M"><foxml:datastreamVersion ID="MODS.0" MIMETYPE="text/xml"><foxml:contentLocation TYPE="INTERNAL_ID" REF="acme:1+MODS+MODS.0"/></foxml:datastreamVersion></foxml:datastream></foxml:digitalObject>''\<close>

definition example_fromstring :: xml_parser where
  \<open>example_fromstring s =
     (if s = foxml_text then Inr managed_record
      else if s = mods_text then Inr mods_tree
      else if s = ''<mods/>'' then Inr (Element ''mods'' [] None None [])
      else if s = concatenated_text then Inl ''junk after document element: line 1, column 25''
      else if s = ''<?xml version="1.0"?><root><a/><?xml version="1.0"?><root><b/></root>''
        then Inl ''XML or text declaration not at start of entity: line 1, column 31''
      else if s = two_roots_text then Inl ''junk after document element: line 1, column 25''
      else if s = ''<?xml version="1.0"?><root><a/><b/></root>''
        then Inr (Element ''root'' [] None None
                   [Element ''a'' [] None None [], Element ''b'' [] None None []])
      else if s = ''<a>'' then Inl ''no element found: line 1, column 3''
      else Inl ''syntax error: line 1, column 0'')\<close>

definition mods_bag :: archive where
  "mods_bag = [ZMember ''data/MODS.0.xml'' (Some mods_text) None]"





text \<open>
  An environment to run \<open>process_container_zip\<close> in closed examples: a file system that
  keeps the directories made and the files written, a formatter that returns its input,
  and a container archive \<open>in/acme.zip\<close> whose only companion archive holds a managed
  record and no MODS file.
\<close>

type_synonym example_fs = "string list \<times> (string \<times> string) list"

definition example_makedirs :: "example_fs \<Rightarrow> string \<Rightarrow> py_error + example_fs" where
  "example_makedirs fs p =
     (if p \<in> set (fst fs) then Inl FileExistsError else Inr (fst fs @ [p], snd fs))"

definition example_write_file :: "example_fs \<Rightarrow> string \<Rightarrow> string \<Rightarrow> py_error + example_fs" where
  "example_write_file fs p content = Inr (fst fs, AList.update p content (snd fs))"

definition container_zip :: archive where
  "container_zip =
     [ZMember ''data/'' (Some []) None,
      ZMember ''data/acme_1_foxml_atomzip.zip'' None
        (Some [ZMember ''foxml.xml'' (Some foxml_text) None])]"

fun example_error_text :: "py_error \<Rightarrow> string" where
  "example_error_text (ParseError msg) = msg"
| "example_error_text AttributeError = ''AttributeError''"
| "example_error_text UnboundLocalError = ''UnboundLocalError''"
| "example_error_text e = ''error''"

definition example_env :: "example_fs env" where
  "example_env =
     \<lparr>parse_xml = example_fromstring,
      serialize = (\<lambda>e. ''<'' @ tag e @ ''/>''),
      run_drush = (\<lambda>command. None),
      open_zipfile = (\<lambda>path. if path = ''in/acme.zip'' then Some container_zip else None),
      run_xmllint = (\<lambda>xml_string. Exited 0 xml_string []),
      makedirs = example_makedirs,
      write_file = example_write_file,
      error_text = example_error_text\<rparr>"

definition start :: "example_fs state" where
  "start =
     \<lparr>found_first_atomzip = False, formatted_xml_string = None, converted_foxml_path = None,
      bag_name_and_new_foxml = [], printed = [], files = ([''out''], [])\<rparr>"


definition first_atomzip :: string where
  "first_atomzip = ''data/acme_1_foxml_atomzip.zip''"

definition opened :: "example_fs state" where
  "opened = start\<lparr>files := ([''out'', ''out/acme''], [])\<rparr>"

text \<open>A test that looks only at the tag and the attributes.\<close>

definition shallow :: "(element \<Rightarrow> bool) \<Rightarrow> bool" where
  "shallow P = (\<forall>t a x y ks x' y' ks'. P (Element t a x y ks) = P (Element t a x' y' ks'))"

section \<open>Properties\<close>

lemma find_first_split:
  "xs = pre @ d # post \<Longrightarrow> P d \<Longrightarrow> \<forall>x\<in>set pre. \<not> P x \<Longrightarrow> List.find P xs = Some d"
  by (induction pre arbitrary: xs) auto

subsection \<open>Strings\<close>

lemma rfind_none: "c \<notin> set s \<Longrightarrow> rfind s c = -1"
  by (induction s) auto

lemma rfind_last: "c \<notin> set b \<Longrightarrow> rfind (a @ c # b) c = int (length a)"
  by (induction a) (auto simp: rfind_none Let_def)

lemma length_atomzip_suffix: "length atomzip_suffix = 18"
  by (simp add: atomzip_suffix_def)

text \<open>No proper suffix of \<open>_foxml_atomzip.zip\<close> is a prefix of it.\<close>

lemma no_border:
  assumes "0 < k" "k < 18"
  shows "drop k atomzip_suffix \<noteq> take (18 - k) atomzip_suffix"
proof -
  have "k = 1 \<or> k = 2 \<or> k = 3 \<or> k = 4 \<or> k = 5 \<or> k = 6 \<or> k = 7 \<or> k = 8 \<or> k = 9 \<or> k = 10
      \<or> k = 11 \<or> k = 12 \<or> k = 13 \<or> k = 14 \<or> k = 15 \<or> k = 16 \<or> k = 17"
    using assms by arith
  then show ?thesis by (elim disjE) (simp_all add: atomzip_suffix_def)
qed

lemma prefix_long: "prefix p (s @ q) \<Longrightarrow> length p \<le> length s \<Longrightarrow> prefix p s"
  by (auto simp: prefix_append)

text \<open>
  So in a name that ends in the suffix and does not hold it anywhere before, no
  occurrence starts before the final one.
\<close>

lemma no_straddle:
  assumes ns: "\<not> sublist atomzip_suffix (c # cs)"
  shows "\<not> prefix atomzip_suffix (c # cs @ atomzip_suffix)"
proof
  assume "prefix atomzip_suffix (c # cs @ atomzip_suffix)"
  then have p: "prefix atomzip_suffix ((c # cs) @ atomzip_suffix)" by simp
  show False
  proof (cases "18 \<le> length (c # cs)")
    case True
    then have "prefix atomzip_suffix (c # cs)"
      using prefix_long[OF p] by (simp add: length_atomzip_suffix)
    then show False using ns prefix_imp_sublist by blast
  next
    case False
    let ?k = "length (c # cs)"
    from p obtain r where r: "(c # cs) @ atomzip_suffix = atomzip_suffix @ r"
      by (auto simp: prefix_def)
    have "drop ?k ((c # cs) @ atomzip_suffix) = drop ?k (atomzip_suffix @ r)"
      using r by simp
    then have "atomzip_suffix = drop ?k atomzip_suffix @ r"
      using False by (simp add: length_atomzip_suffix)
    then have "take (18 - ?k) atomzip_suffix = drop ?k atomzip_suffix"
      using False by (metis append_eq_conv_conj length_drop length_atomzip_suffix)
    then show False using no_border[of ?k] False by simp
  qed
qed

lemma replace_del_self: "replace_del atomzip_suffix atomzip_suffix = []"
  by (simp add: atomzip_suffix_def)

lemma replace_del_stem:
  "\<not> sublist atomzip_suffix stem \<Longrightarrow> replace_del atomzip_suffix (stem @ atomzip_suffix) = stem"
proof (induction stem)
  case Nil
  show ?case by (simp add: replace_del_self)
next
  case (Cons c cs)
  have ns: "\<not> sublist atomzip_suffix cs"
    using Cons.prems by (auto simp: sublist_Cons_right)
  show ?case using no_straddle[OF Cons.prems] Cons.IH[OF ns] by simp
qed

lemma split_last_underscore:
  assumes "CHR ''_'' \<notin> set p"
  shows "slice_to (coll @ ''_'' @ p) (rfind (coll @ ''_'' @ p) CHR ''_'') = coll"
    and "slice_from (coll @ ''_'' @ p) (rfind (coll @ ''_'' @ p) CHR ''_'' + 1) = p"
proof -
  have n: "nat (int (length coll) + 1) = Suc (length coll)" by simp
  show "slice_to (coll @ ''_'' @ p) (rfind (coll @ ''_'' @ p) CHR ''_'') = coll"
    using assms by (simp add: rfind_last slice_to_def)
  show "slice_from (coll @ ''_'' @ p) (rfind (coll @ ''_'' @ p) CHR ''_'' + 1) = p"
    using assms by (simp add: rfind_last slice_from_def n)
qed

lemma no_underscore_split:
  assumes "CHR ''_'' \<notin> set s"
  shows "slice_to s (rfind s CHR ''_'') = butlast s"
    and "slice_from s (rfind s CHR ''_'' + 1) = s"
  using assms
  by (simp_all add: rfind_none slice_to_def slice_from_def butlast_conv_take nat_diff_distrib')

subsection \<open>Logical names\<close>

text \<open>
  Claim C7, as stated, fails: \<open>str.replace\<close> deletes every occurrence of
  \<open>_foxml_atomzip.zip\<close>, not only the one that ends the name. For the file name below
  the code splits \<open>A_B\<close>, while stripping the suffix leaves \<open>A_foxml_atomzip.zip_B\<close>.
\<close>

theorem logical_name_strips_suffix_counterexample:
  "collection_name ''A_foxml_atomzip.zip_B_foxml_atomzip.zip'' = ''A'' \<and>
   pid ''A_foxml_atomzip.zip_B_foxml_atomzip.zip'' = ''B'' \<and>
   spec_logical_name ''A_foxml_atomzip.zip_B_foxml_atomzip.zip'' = (''A_foxml_atomzip.zip'', ''B'')"
  by (simp add: collection_name_def pid_def zip_filename_def basename_def slice_from_def
      slice_to_def atomzip_suffix_def spec_logical_name_def spec_strip_suffix_def suffix_def)

text \<open>
  Claim C7, amended: when the base name of the member is \<open>coll_p_foxml_atomzip.zip\<close>,
  where \<open>p\<close> holds no underscore and \<open>_foxml_atomzip.zip\<close> does not occur inside
  \<open>coll_p\<close>, the collection component is \<open>coll\<close>, the PID component is \<open>p\<close> and the
  command names \<open>coll:p\<close>. The file name \<open>ACME_COLL_obj123_foxml_atomzip.zip\<close> is
  the instance of the witness.
\<close>

theorem logical_name_last_underscore:
  assumes "basename zip_path = coll @ ''_'' @ p @ atomzip_suffix"
    and "CHR ''_'' \<notin> set p"
    and "\<not> sublist atomzip_suffix (coll @ ''_'' @ p)"
  shows "collection_name zip_path = coll \<and> pid zip_path = p \<and>
    format_drush_command_from_atomzip zip_path =
      ''drush @dsu --user=1 create-islandora-bag object '' @ coll @ '':'' @ p"
proof -
  have "zip_filename zip_path = coll @ ''_'' @ p"
    using replace_del_stem[OF assms(3)] assms(1) by (simp add: zip_filename_def)
  then show ?thesis
    using split_last_underscore[OF assms(2), of coll]
    by (simp add: collection_name_def pid_def format_drush_command_from_atomzip_def)
qed

theorem logical_name_last_underscore_witness:
  "basename ''ACME_COLL_obj123_foxml_atomzip.zip'' = ''ACME_COLL'' @ ''_'' @ ''obj123'' @ atomzip_suffix \<and>
   CHR ''_'' \<notin> set ''obj123'' \<and>
   \<not> sublist atomzip_suffix (''ACME_COLL'' @ ''_'' @ ''obj123'') \<and>
   collection_name ''ACME_COLL_obj123_foxml_atomzip.zip'' = ''ACME_COLL'' \<and>
   pid ''ACME_COLL_obj123_foxml_atomzip.zip'' = ''obj123'' \<and>
   format_drush_command_from_atomzip ''ACME_COLL_obj123_foxml_atomzip.zip'' =
     ''drush @dsu --user=1 create-islandora-bag object ACME_COLL:obj123''"
proof -
  have b: "basename ''ACME_COLL_obj123_foxml_atomzip.zip'' =
      ''ACME_COLL'' @ ''_'' @ ''obj123'' @ atomzip_suffix"
    by (simp add: basename_def slice_from_def atomzip_suffix_def)
  have u: "CHR ''_'' \<notin> set ''obj123''" by simp
  have "length (''ACME_COLL'' @ ''_'' @ ''obj123'') < length atomzip_suffix"
    by (simp add: atomzip_suffix_def)
  then have n: "\<not> sublist atomzip_suffix (''ACME_COLL'' @ ''_'' @ ''obj123'')"
    using sublist_length_le leD by blast
  show ?thesis
    using logical_name_last_underscore[OF b u n] b u n by simp
qed

text \<open>
  Claim C10: when the stripped name \<open>zip_filename\<close> holds no underscore, \<open>rfind\<close>
  returns \<open>-1\<close> and the derivation still returns: the collection component is the
  stripped name without its last character and the PID component is the whole stripped
  name.
\<close>

theorem logical_name_no_underscore:
  assumes "CHR ''_'' \<notin> set (zip_filename zip_path)"
  shows "rfind (zip_filename zip_path) CHR ''_'' = -1 \<and>
    collection_name zip_path = butlast (zip_filename zip_path) \<and>
    pid zip_path = zip_filename zip_path \<and>
    format_drush_command_from_atomzip zip_path =
      ''drush @dsu --user=1 create-islandora-bag object '' @
      butlast (zip_filename zip_path) @ '':'' @ zip_filename zip_path"
  using no_underscore_split[OF assms] rfind_none[OF assms]
  by (simp add: collection_name_def pid_def format_drush_command_from_atomzip_def)

theorem logical_name_no_underscore_witness:
  "zip_filename ''data/obj123_foxml_atomzip.zip'' = ''obj123'' \<and>
   CHR ''_'' \<notin> set (zip_filename ''data/obj123_foxml_atomzip.zip'') \<and>
   rfind (zip_filename ''data/obj123_foxml_atomzip.zip'') CHR ''_'' = -1 \<and>
   collection_name ''data/obj123_foxml_atomzip.zip'' = ''obj12'' \<and>
   pid ''data/obj123_foxml_atomzip.zip'' = ''obj123'' \<and>
   format_drush_command_from_atomzip ''data/obj123_foxml_atomzip.zip'' =
     ''drush @dsu --user=1 create-islandora-bag object obj12:obj123''"
proof -
  have z: "zip_filename ''data/obj123_foxml_atomzip.zip'' = ''obj123''"
    by (simp add: zip_filename_def basename_def slice_from_def atomzip_suffix_def)
  then have u: "CHR ''_'' \<notin> set (zip_filename ''data/obj123_foxml_atomzip.zip'')" by simp
  show ?thesis
    using logical_name_no_underscore[OF u] u by (simp add: z)
qed

subsection \<open>The classifier\<close>

lemma find_none_iff: "List.find P xs = None \<longleftrightarrow> (\<forall>x\<in>set xs. \<not> P x)"
  by (induction xs) auto

lemma find_MODS_datastream_first:
  assumes "descendants foxml_root = pre @ d # post" and "is_MODS_datastream d"
    and "\<forall>x \<in> set pre. \<not> is_MODS_datastream x"
  shows "find_MODS_datastream foxml_root = Some d"
  unfolding find_MODS_datastream_def using assms by (intro find_first_split[of _ pre d post]) auto

text \<open>
  Claim C5: the classifier returns false when no descendant of the root is a
  \<open>foxml:datastream\<close> with \<open>ID\<close> \<open>MODS\<close>; when there is one, it returns true exactly when
  the first of them in document order has \<open>CONTROL_GROUP\<close> equal to \<open>M\<close>.
\<close>

theorem is_foxml_managed_contract:
  "((\<forall>d \<in> set (descendants foxml_root). \<not> is_MODS_datastream d) \<longrightarrow>
      \<not> is_foxml_managed foxml_root) \<and>
   (\<forall>pre d post. descendants foxml_root = pre @ d # post \<and> is_MODS_datastream d \<and>
      (\<forall>x \<in> set pre. \<not> is_MODS_datastream x) \<longrightarrow>
      (is_foxml_managed foxml_root \<longleftrightarrow> get_attr d ''CONTROL_GROUP'' = Some ''M''))"
proof (intro conjI impI allI)
  assume "\<forall>d \<in> set (descendants foxml_root). \<not> is_MODS_datastream d"
  then have "find_MODS_datastream foxml_root = None"
    by (simp add: find_MODS_datastream_def find_none_iff)
  then show "\<not> is_foxml_managed foxml_root" by (simp add: is_foxml_managed_def)
next
  fix pre d post
  assume "descendants foxml_root = pre @ d # post \<and> is_MODS_datastream d \<and>
      (\<forall>x \<in> set pre. \<not> is_MODS_datastream x)"
  then have "find_MODS_datastream foxml_root = Some d"
    using find_MODS_datastream_first by blast
  then show "is_foxml_managed foxml_root \<longleftrightarrow> get_attr d ''CONTROL_GROUP'' = Some ''M''"
    by (simp add: is_foxml_managed_def)
qed

lemmas example_defs = digital_object_def dc_datastream_def mods_datastream_def
  descendants_def is_MODS_datastream_def foxml_tag_def get_attr_def

theorem is_foxml_managed_contract_witness:
  "list_all (\<lambda>d. \<not> is_MODS_datastream d) (descendants (digital_object [dc_datastream])) \<and>
   \<not> is_foxml_managed (digital_object [dc_datastream]) \<and>
   descendants (digital_object [dc_datastream, mods_datastream ''M'' []]) =
     [dc_datastream] @ mods_datastream ''M'' [] # [] \<and>
   is_MODS_datastream (mods_datastream ''M'' []) \<and>
   list_all (\<lambda>x. \<not> is_MODS_datastream x) [dc_datastream] \<and>
   is_foxml_managed (digital_object [dc_datastream, mods_datastream ''M'' []]) \<and>
   descendants (digital_object [dc_datastream, mods_datastream ''X'' []]) =
     [dc_datastream] @ mods_datastream ''X'' [] # [] \<and>
   is_MODS_datastream (mods_datastream ''X'' []) \<and>
   \<not> is_foxml_managed (digital_object [dc_datastream, mods_datastream ''X'' []])"
proof -
  have a: "\<forall>d \<in> set (descendants (digital_object [dc_datastream])). \<not> is_MODS_datastream d"
    by (simp add: example_defs)
  have d: "descendants (digital_object [dc_datastream, mods_datastream c []]) =
     [dc_datastream] @ mods_datastream c [] # []" for c
    by (simp add: example_defs)
  have m: "is_MODS_datastream (mods_datastream c [])" for c
    by (simp add: example_defs)
  have p: "\<forall>x \<in> set [dc_datastream]. \<not> is_MODS_datastream x"
    by (simp add: example_defs)
  have g: "get_attr (mods_datastream c []) ''CONTROL_GROUP'' = Some c" for c
    by (simp add: example_defs)
  have c1: "\<not> is_foxml_managed (digital_object [dc_datastream])"
    using is_foxml_managed_contract[of "digital_object [dc_datastream]"] a by blast
  have c2: "is_foxml_managed (digital_object [dc_datastream, mods_datastream c []]) \<longleftrightarrow>
      get_attr (mods_datastream c []) ''CONTROL_GROUP'' = Some ''M''" for c
    using is_foxml_managed_contract[of "digital_object [dc_datastream, mods_datastream c []]"]
      d[of c] m[of c] p by blast
  show ?thesis
    using a c1 c2[of "''M''"] c2[of "''X''"] d m p by (simp add: g list_all_iff)
qed

text \<open>
  Claim C8: when the first \<open>MODS\<close> datastream carries no \<open>CONTROL_GROUP\<close> attribute,
  \<open>get\<close> returns \<open>None\<close>, which is not \<open>M\<close>, and the classifier returns false.
\<close>

theorem is_foxml_managed_no_control_group:
  assumes "descendants foxml_root = pre @ d # post" and "is_MODS_datastream d"
    and "\<forall>x \<in> set pre. \<not> is_MODS_datastream x"
    and "get_attr d ''CONTROL_GROUP'' = None"
  shows "\<not> is_foxml_managed foxml_root"
  using find_MODS_datastream_first[OF assms(1-3)] assms(4) by (simp add: is_foxml_managed_def)


theorem is_foxml_managed_no_control_group_witness:
  "descendants (digital_object [bare_mods_datastream]) = [] @ bare_mods_datastream # [] \<and>
   is_MODS_datastream bare_mods_datastream \<and>
   list_all (\<lambda>x. \<not> is_MODS_datastream x) [] \<and>
   get_attr bare_mods_datastream ''CONTROL_GROUP'' = None \<and>
   \<not> is_foxml_managed (digital_object [bare_mods_datastream])"
proof -
  have d: "descendants (digital_object [bare_mods_datastream]) = [] @ bare_mods_datastream # []"
    by (simp add: example_defs bare_mods_datastream_def)
  have m: "is_MODS_datastream bare_mods_datastream"
    by (simp add: example_defs bare_mods_datastream_def)
  have p: "\<forall>x \<in> set []. \<not> is_MODS_datastream x" by simp
  have g: "get_attr bare_mods_datastream ''CONTROL_GROUP'' = None"
    by (simp add: example_defs bare_mods_datastream_def)
  show ?thesis
    using is_foxml_managed_no_control_group[OF d m p g] d m p g by simp
qed

subsection \<open>The transformer\<close>

lemma shallow_MODS: "shallow is_MODS_datastream"
  by (simp add: shallow_def is_MODS_datastream_def get_attr_def)

lemma shallowD: "shallow P \<Longrightarrow> P (Element t a x y ks) = P (Element t a x' y' ks')"
  unfolding shallow_def by blast

lemma find_append:
  "List.find P (xs @ ys) = (case List.find P xs of Some x \<Rightarrow> Some x | None \<Rightarrow> List.find P ys)"
  by (induction xs) auto

lemma iter_Cons: "iter e = e # descendants e"
  by (cases e) (simp add: descendants_def)

lemma replace_first_find:
  "shallow P \<Longrightarrow> P new \<Longrightarrow>
     (case replace_first P new cs of
        None \<Rightarrow> List.find P (concat (map iter cs)) = None
      | Some cs' \<Rightarrow> List.find P (concat (map iter cs)) \<noteq> None \<and>
                    List.find P (concat (map iter cs')) = Some new)"
proof (induction P new cs rule: replace_first.induct)
  case (1 P new)
  show ?case by simp
next
  case (2 P new t a x y ks cs)
  let ?e = "Element t a x y ks"
  show ?case
  proof (cases "P ?e")
    case True
    then show ?thesis using "2.prems" by (simp add: iter_Cons)
  next
    case False
    note ih1 = "2.IH"(1)[OF False "2.prems"]
    show ?thesis
    proof (cases "replace_first P new ks")
      case None
      note ih2 = "2.IH"(2)[OF False None "2.prems"]
      show ?thesis using False None ih1 ih2
        by (auto simp: find_append split: option.splits)
    next
      case (Some ks')
      have "\<not> P (Element t a x y ks')" using False shallowD[OF "2.prems"(1)] by blast
      then show ?thesis using False Some ih1
        by (auto simp: find_append split: option.splits)
    qed
  qed
qed

lemma is_MODS_set_attr:
  "is_MODS_datastream d \<Longrightarrow> is_MODS_datastream (set_children (set_attr d ''CONTROL_GROUP'' v) cs)"
  by (simp add: is_MODS_datastream_def set_children_def set_attr_def get_attr_def update_conv')

lemma get_attr_set_attr:
  "get_attr (set_children (set_attr d k v) cs) k = Some v"
  by (simp add: set_children_def set_attr_def get_attr_def update_conv')

lemma find_Some_holds: "List.find P xs = Some x \<Longrightarrow> P x"
  by (induction xs) (auto split: if_splits)

lemma descendants_set_children: "descendants (set_children e cs) = concat (map iter cs)"
  by (simp add: descendants_def set_children_def)

text \<open>What the transformer leaves when it found the datastream: the first MODS datastream
  of the tree it leaves reads X.\<close>

lemma managed_to_inline_control_group:
  assumes "find_MODS_datastream foxml_root = Some d"
  shows "\<exists>d'. find_MODS_datastream (snd (managed_to_inline fromstring foxml_root bag_archive)) = Some d' \<and>
     get_attr d' ''CONTROL_GROUP'' = Some ''X'' \<and> tag d' = tag d \<and>
     d' = set_children (set_attr d ''CONTROL_GROUP'' ''X'')
            (snd (inline_versions fromstring bag_archive (children d)))"
proof -
  let ?ds = "set_attr d ''CONTROL_GROUP'' ''X''"
  obtain err cs where iv: "inline_versions fromstring bag_archive (children ?ds) = (err, cs)"
    by (cases "inline_versions fromstring bag_archive (children ?ds)")
  let ?new = "set_children ?ds cs"
  have P: "is_MODS_datastream d" using assms find_Some_holds by (fastforce simp: find_MODS_datastream_def)
  have Pn: "is_MODS_datastream ?new" using P by (rule is_MODS_set_attr)
  have f: "List.find is_MODS_datastream (concat (map iter (children foxml_root))) = Some d"
    using assms by (simp add: find_MODS_datastream_def descendants_def)
  from replace_first_find[OF shallow_MODS Pn, of "children foxml_root"] f
  obtain cs' where r: "replace_first is_MODS_datastream ?new (children foxml_root) = Some cs'"
    and f': "List.find is_MODS_datastream (concat (map iter cs')) = Some ?new"
    by (auto split: option.splits)
  have c: "children ?ds = children d" by (simp add: set_attr_def)
  have res: "snd (managed_to_inline fromstring foxml_root bag_archive) = set_children foxml_root cs'"
    using assms iv r by (simp add: managed_to_inline_def Let_def)
  have 1: "find_MODS_datastream (set_children foxml_root cs') = Some ?new"
    using f' by (simp add: find_MODS_datastream_def descendants_set_children)
  have 2: "get_attr ?new ''CONTROL_GROUP'' = Some ''X''" by (rule get_attr_set_attr)
  have 3: "tag ?new = tag d" by (simp add: set_children_def set_attr_def)
  have 4: "cs = snd (inline_versions fromstring bag_archive (children d))"
    using iv c by simp
  show ?thesis unfolding res using 1 2 3 4 by blast
qed

text \<open>
  Claim C6: on the tree that a call of the transformer leaves, whether the call returned
  or raised, the classifier returns false. The pipeline calls the transformer only on a
  tree the classifier accepts, so a second run does not transform the tree again.
\<close>

theorem classifier_after_transformer:
  "\<not> is_foxml_managed (snd (managed_to_inline fromstring foxml_root bag_archive))"
proof (cases "find_MODS_datastream foxml_root")
  case None
  then show ?thesis by (simp add: managed_to_inline_def is_foxml_managed_def)
next
  case (Some d)
  from managed_to_inline_control_group[OF Some, of fromstring bag_archive]
  show ?thesis by (auto simp: is_foxml_managed_def)
qed

lemma is_foxml_managed_find:
  "is_foxml_managed r \<Longrightarrow> \<exists>d. find_MODS_datastream r = Some d \<and> get_attr d ''CONTROL_GROUP'' = Some ''M''"
  by (auto simp: is_foxml_managed_def split: option.splits)

text \<open>
  Claim C9: the transformer sets \<open>CONTROL_GROUP\<close> to \<open>X\<close> before it visits any version
  element. When it is called on a managed tree and raises, the tree is left changed: its
  MODS datastream, which read \<open>M\<close>, reads \<open>X\<close>. In the witness the bag archive holds no
  content for the version, the call raises \<open>AttributeError\<close>, and the tree left differs
  from the input in that attribute alone: nothing was embedded.
\<close>

theorem transformer_not_atomic:
  assumes "is_foxml_managed foxml_root"
    and "fst (managed_to_inline fromstring foxml_root bag_archive) = Some err"
  shows "\<exists>d d'. find_MODS_datastream foxml_root = Some d \<and>
      get_attr d ''CONTROL_GROUP'' = Some ''M'' \<and>
      find_MODS_datastream (snd (managed_to_inline fromstring foxml_root bag_archive)) = Some d' \<and>
      get_attr d' ''CONTROL_GROUP'' = Some ''X'' \<and>
      snd (managed_to_inline fromstring foxml_root bag_archive) \<noteq> foxml_root"
proof -
  from is_foxml_managed_find[OF assms(1)] obtain d
    where d: "find_MODS_datastream foxml_root = Some d" "get_attr d ''CONTROL_GROUP'' = Some ''M''"
    by blast
  from managed_to_inline_control_group[OF d(1), of fromstring bag_archive] obtain d'
    where d': "find_MODS_datastream (snd (managed_to_inline fromstring foxml_root bag_archive)) = Some d'"
      "get_attr d' ''CONTROL_GROUP'' = Some ''X''"
    by blast
  have "snd (managed_to_inline fromstring foxml_root bag_archive) \<noteq> foxml_root"
    using d d' by auto
  then show ?thesis using d d' by blast
qed

theorem transformer_not_atomic_witness:
  "is_foxml_managed managed_record \<and>
   fst (managed_to_inline example_fromstring managed_record []) = Some AttributeError \<and>
   (\<exists>d d'. find_MODS_datastream managed_record = Some d \<and>
      get_attr d ''CONTROL_GROUP'' = Some ''M'' \<and>
      find_MODS_datastream (snd (managed_to_inline example_fromstring managed_record [])) = Some d' \<and>
      get_attr d' ''CONTROL_GROUP'' = Some ''X'' \<and>
      snd (managed_to_inline example_fromstring managed_record []) \<noteq> managed_record) \<and>
   snd (managed_to_inline example_fromstring managed_record []) =
     digital_object [dc_datastream, mods_datastream ''X'' [mods_version [content_location]]]"
proof -
  have m: "is_foxml_managed managed_record" by code_simp
  have e: "fst (managed_to_inline example_fromstring managed_record []) = Some AttributeError"
    by code_simp
  have s: "snd (managed_to_inline example_fromstring managed_record []) =
     digital_object [dc_datastream, mods_datastream ''X'' [mods_version [content_location]]]"
    by code_simp
  show ?thesis using transformer_not_atomic[OF m e] m e s by simp
qed

lemma removal_leaf:
  assumes "List.find (\<lambda>d. tag d = foxml_tag ''contentLocation'') (descendants v) = Some c"
    and "children c = []"
  shows "removal v = Inr None"
  using assms by (simp add: removal_def truthy_def)

text \<open>
  Claim C1 fails on the code. The test \<open>if content_location_element:\<close> is the truth value
  of an element, which is false for an element without children, so a
  \<open>foxml:contentLocation\<close> that is a leaf, as it is in a FOXML record, is never removed
  (lemma \<open>removal_leaf\<close>). On the managed record below the transformer returns normally,
  the datastream reads \<open>X\<close>, and its version still holds the pointer next to the embedded
  content.
\<close>

theorem managed_to_inline_keeps_content_location:
  "is_foxml_managed managed_record \<and>
   managed_to_inline example_fromstring managed_record mods_bag =
     (None,
      digital_object
        [dc_datastream,
         mods_datastream ''X'' [mods_version [content_location, xml_content_element mods_tree]]]) \<and>
   filter (\<lambda>d. tag d = foxml_tag ''contentLocation'')
     (descendants
        (mods_datastream ''X'' [mods_version [content_location, xml_content_element mods_tree]])) =
     [content_location]"
  by code_simp

subsection \<open>The locator\<close>











text \<open>
  Outside the statement of C4: the test \<open>if nested_result:\<close> is the truth value of an
  element, which is false for an element without children. So a tree found in a nested
  archive whose root has no children is dropped, unlike the same tree found at the top
  level, which is returned: a target that exists one level down is reported as absent,
  and a later match is returned in place of an earlier one. This is the defect of the
  test \<open>if content_location_element:\<close> in the transformer, in another place.
\<close>

lemma locator_loses_childless_target:
  "get_XML_tree_zip_file example_fromstring (Some ''MODS.0'')
     [ZMember ''data/inner.zip'' None (Some [ZMember ''MODS.0.xml'' (Some ''<mods/>'') None])] =
     Inr None \<and>
   get_XML_tree_zip_file example_fromstring (Some ''MODS.0'')
     [ZMember ''MODS.0.xml'' (Some ''<mods/>'') None] =
     Inr (Some (Element ''mods'' [] None None []))"
  by code_simp

lemma locator_passes_over_childless_result:
  "get_XML_tree_zip_file example_fromstring (Some ''MODS.0'')
     [ZMember ''data/inner.zip'' None (Some [ZMember ''MODS.0.xml'' (Some ''<mods/>'') None]),
      ZMember ''MODS.0.xml'' (Some mods_text) None] = Inr (Some mods_tree)"
  by code_simp

subsection \<open>The repair of concatenated documents\<close>











subsection \<open>Processing one container archive\<close>

lemma contains_prefix: "prefix s t \<Longrightarrow> contains s t"
  by (cases t) auto

lemma contains_append: "contains s (a @ s @ b)"
  by (induction a) (auto simp: contains_prefix)

lemma process_name_first:
  assumes "contains ''data/'' name" and "endswith name atomzip_suffix"
    and "\<not> found_first_atomzip st" and "\<not> contains name input_zip"
  shows "process_name env input_zip output_directory zip_archive name st =
     process_located env output_directory zip_archive (get_bag_name_from_atomzip name)
       (get_XML_tree_zip_file (parse_xml env) (Some ''foxml.xml'') zip_archive)
       (st\<lparr>found_first_atomzip := True\<rparr>)"
  using assms by (simp add: process_name_def)

lemma process_name_generated:
  assumes "contains ''data/'' name" and "endswith name atomzip_suffix"
    and "found_first_atomzip st \<or> contains name input_zip"
    and "run_drush env (format_drush_command_from_atomzip name) = Some bag_path"
    and "open_zipfile env bag_path = Some bag_archive"
  shows "process_name env input_zip output_directory zip_archive name st =
     process_located env output_directory zip_archive (get_bag_name_from_atomzip name)
       (get_XML_tree_zip_file (parse_xml env) (Some ''foxml.xml'') bag_archive) st"
  using assms by (auto simp: process_name_def)

text \<open>
  Claim C2, amended. Take an item whose record was located as \<open>foxml_root\<close>, a managed
  tree on which the transformer raises \<open>e\<close> and leaves \<open>root'\<close>. The exception is
  printed in a line that holds the item's name, and the item goes on: when the formatter
  exits with status 0 on the serialised \<open>root'\<close> and the directory and the file are
  written, the pair of the item's name and its output path is appended to
  \<open>bag_name_and_new_foxml\<close>, and the loop goes on with the remaining names.
\<close>

theorem failed_transform_is_logged_and_recorded:
  assumes "process_name env input_zip output_directory zip_archive name st =
       process_located env output_directory zip_archive bag_name (Inr (Some foxml_root)) st1"
    and "is_foxml_managed foxml_root"
    and "managed_to_inline (parse_xml env) foxml_root zip_archive = (Some e, root')"
    and "run_xmllint env (serialize env root') = Exited 0 stdout stderr"
    and "makedirs env (files st1) (path_join output_directory bag_name) = Inr fs1"
    and "write_file env fs1 (path_join output_directory bag_name @ ''/foxml.xml'') stdout = Inr fs2"
  shows "contains bag_name
       (''There was an error with converting '' @ bag_name @ [CHR 0x27] @
        ''s FOXML to inline; conversion will be skipped: '' @ error_text env e) \<and>
     process_names env input_zip output_directory zip_archive (name # names) st =
     process_names env input_zip output_directory zip_archive names
       (st1\<lparr>printed :=
              printed st1 @
              [bag_name @ '' contains a managed FOXML file. Making it inline.'',
               ''There was an error with converting '' @ bag_name @ [CHR 0x27] @
               ''s FOXML to inline; conversion will be skipped: '' @ error_text env e],
            formatted_xml_string := Some stdout,
            files := fs2,
            converted_foxml_path := Some (path_join output_directory bag_name @ ''/foxml.xml''),
            bag_name_and_new_foxml :=
              bag_name_and_new_foxml st1 @
              [(bag_name, path_join output_directory bag_name @ ''/foxml.xml'')]\<rparr>)"
proof
  show "contains bag_name
       (''There was an error with converting '' @ bag_name @ [CHR 0x27] @
        ''s FOXML to inline; conversion will be skipped: '' @ error_text env e)"
    by (rule contains_append)
next
  let ?path = "path_join output_directory bag_name @ ''/foxml.xml''"
  let ?m1 = "bag_name @ '' contains a managed FOXML file. Making it inline.''"
  let ?m2 = "''There was an error with converting '' @ bag_name @ [CHR 0x27] @
        ''s FOXML to inline; conversion will be skipped: '' @ error_text env e"
  let ?st2 = "st1\<lparr>printed := printed st1 @ [?m1, ?m2]\<rparr>"
  have ct: "classify_and_transform env zip_archive bag_name foxml_root st1 = (root', ?st2)"
    using assms(2,3) by (simp add: classify_and_transform_def print_line_def)
  have sf: "save_formatted env output_directory bag_name (?st2\<lparr>formatted_xml_string := Some stdout\<rparr>) =
      ?st2\<lparr>formatted_xml_string := Some stdout, files := fs2, converted_foxml_path := Some ?path\<rparr>"
    using assms(5,6) by (simp add: save_formatted_def Let_def)
  have fr: "format_and_record env output_directory bag_name root' ?st2 =
      Returned (?st2\<lparr>formatted_xml_string := Some stdout, files := fs2,
                  converted_foxml_path := Some ?path,
                  bag_name_and_new_foxml := bag_name_and_new_foxml st1 @ [(bag_name, ?path)]\<rparr>)"
    using assms(4) sf by (simp add: format_and_record_def Let_def)
  have "process_located env output_directory zip_archive bag_name (Inr (Some foxml_root)) st1 =
      Returned (?st2\<lparr>formatted_xml_string := Some stdout, files := fs2,
                  converted_foxml_path := Some ?path,
                  bag_name_and_new_foxml := bag_name_and_new_foxml st1 @ [(bag_name, ?path)]\<rparr>)"
    unfolding process_located_def by (simp only: ct fr sum.case option.case prod.case)
  then have "process_name env input_zip output_directory zip_archive name st =
      Returned (?st2\<lparr>formatted_xml_string := Some stdout, files := fs2,
                  converted_foxml_path := Some ?path,
                  bag_name_and_new_foxml := bag_name_and_new_foxml st1 @ [(bag_name, ?path)]\<rparr>)"
    by (simp only: assms(1))
  then show "process_names env input_zip output_directory zip_archive (name # names) st =
     process_names env input_zip output_directory zip_archive names
       (st1\<lparr>printed := printed st1 @ [?m1, ?m2],
            formatted_xml_string := Some stdout,
            files := fs2,
            converted_foxml_path := Some ?path,
            bag_name_and_new_foxml := bag_name_and_new_foxml st1 @ [(bag_name, ?path)]\<rparr>)"
    by simp
qed

theorem failed_transform_is_logged_and_recorded_witness:
  "process_name example_env ''acme.zip'' ''out/acme'' container_zip first_atomzip opened =
     process_located example_env ''out/acme'' container_zip ''acme_1'' (Inr (Some managed_record))
       (opened\<lparr>found_first_atomzip := True\<rparr>) \<and>
   is_foxml_managed managed_record \<and>
   managed_to_inline (parse_xml example_env) managed_record container_zip =
     (Some AttributeError,
      digital_object [dc_datastream, mods_datastream ''X'' [mods_version [content_location]]]) \<and>
   run_xmllint example_env
     (serialize example_env
        (digital_object [dc_datastream, mods_datastream ''X'' [mods_version [content_location]]])) =
     Exited 0 ''<{info:fedora/fedora-system:def/foxml#}digitalObject/>'' [] \<and>
   makedirs example_env (files (opened\<lparr>found_first_atomzip := True\<rparr>))
     (path_join ''out/acme'' ''acme_1'') =
     Inr ([''out'', ''out/acme'', ''out/acme/acme_1''], []) \<and>
   write_file example_env ([''out'', ''out/acme'', ''out/acme/acme_1''], [])
     (path_join ''out/acme'' ''acme_1'' @ ''/foxml.xml'')
     ''<{info:fedora/fedora-system:def/foxml#}digitalObject/>'' =
     Inr ([''out'', ''out/acme'', ''out/acme/acme_1''],
          [(''out/acme/acme_1/foxml.xml'',
            ''<{info:fedora/fedora-system:def/foxml#}digitalObject/>'')]) \<and>
   contains ''acme_1''
     (''There was an error with converting '' @ ''acme_1'' @ [CHR 0x27] @
      ''s FOXML to inline; conversion will be skipped: '' @
      error_text example_env AttributeError) \<and>
   bag_name_and_new_foxml
     (case process_names example_env ''acme.zip'' ''out/acme'' container_zip [first_atomzip] opened of
        Returned st \<Rightarrow> st | Raised e st \<Rightarrow> st) =
     [(''acme_1'', ''out/acme/acme_1/foxml.xml'')]"
proof -
  let ?root' = "digital_object [dc_datastream, mods_datastream ''X'' [mods_version [content_location]]]"
  let ?out = "''<{info:fedora/fedora-system:def/foxml#}digitalObject/>''"
  let ?fs1 = "([''out'', ''out/acme'', ''out/acme/acme_1''], []) :: example_fs"
  let ?fs2 = "([''out'', ''out/acme'', ''out/acme/acme_1''],
          [(''out/acme/acme_1/foxml.xml'', ?out)]) :: example_fs"
  have h1: "process_name example_env ''acme.zip'' ''out/acme'' container_zip first_atomzip opened =
     process_located example_env ''out/acme'' container_zip ''acme_1'' (Inr (Some managed_record))
       (opened\<lparr>found_first_atomzip := True\<rparr>)"
    by code_simp
  have h2: "is_foxml_managed managed_record" by code_simp
  have h3: "managed_to_inline (parse_xml example_env) managed_record container_zip =
     (Some AttributeError, ?root')"
    by code_simp
  have h4: "run_xmllint example_env (serialize example_env ?root') = Exited 0 ?out []"
    by code_simp
  have h5: "makedirs example_env (files (opened\<lparr>found_first_atomzip := True\<rparr>))
     (path_join ''out/acme'' ''acme_1'') = Inr ?fs1"
    by code_simp
  have h6: "write_file example_env ?fs1 (path_join ''out/acme'' ''acme_1'' @ ''/foxml.xml'') ?out =
     Inr ?fs2"
    by code_simp
  note t = failed_transform_is_logged_and_recorded[OF h1 h2 h3 h4 h5 h6, of "[]"]
  have c: "contains ''acme_1''
     (''There was an error with converting '' @ ''acme_1'' @ [CHR 0x27] @
      ''s FOXML to inline; conversion will be skipped: '' @
      error_text example_env AttributeError)"
    using t by (rule conjunct1)
  have "bag_name_and_new_foxml
     (case process_names example_env ''acme.zip'' ''out/acme'' container_zip [first_atomzip] opened of
        Returned st \<Rightarrow> st | Raised e st \<Rightarrow> st) =
     bag_name_and_new_foxml (opened\<lparr>found_first_atomzip := True\<rparr>) @
       [(''acme_1'', path_join ''out/acme'' ''acme_1'' @ ''/foxml.xml'')]"
    unfolding t[THEN conjunct2] by simp
  also have "\<dots> = [(''acme_1'', ''out/acme/acme_1/foxml.xml'')]" by code_simp
  finally show ?thesis using h1 h2 h3 h4 h5 h6 c by (intro conjI)
qed

text \<open>
  Claim C2, as stated, fails: the append to \<open>bag_name_and_new_foxml\<close> stands after the
  \<open>try\<close> blocks and runs for an item whose transformation failed. In the archive below
  the bag holds no MODS file, the transformer raises \<open>AttributeError\<close>, and the item is
  in the list when the call returns.
\<close>

theorem failed_item_is_recorded_counterexample:
  "get_XML_tree_zip_file (parse_xml example_env) (Some ''foxml.xml'') container_zip =
     Inr (Some managed_record) \<and>
   fst (managed_to_inline (parse_xml example_env) managed_record container_zip) =
     Some AttributeError \<and>
   process_container_zip example_env ''in'' ''out'' ''acme.zip'' start =
     Returned
       \<lparr>found_first_atomzip = True,
        formatted_xml_string = Some ''<{info:fedora/fedora-system:def/foxml#}digitalObject/>'',
        converted_foxml_path = Some ''out/acme/acme_1/foxml.xml'',
        bag_name_and_new_foxml = [(''acme_1'', ''out/acme/acme_1/foxml.xml'')],
        printed =
          [''acme_1 contains a managed FOXML file. Making it inline.'',
           ''There was an error with converting acme_1'' @ [CHR 0x27] @
           ''s FOXML to inline; conversion will be skipped: AttributeError''],
        files =
          ([''out'', ''out/acme'', ''out/acme/acme_1''],
           [(''out/acme/acme_1/foxml.xml'',
             ''<{info:fedora/fedora-system:def/foxml#}digitalObject/>'')])\<rparr>"
  by code_simp

text \<open>
  The two formatter failures on the same archive. After a non-zero exit the lines
  printed do not hold the item's name, an empty file is left and the item is appended.
  After a timeout \<open>converted_foxml_path\<close> is not bound for the first item, so the append
  raises \<open>UnboundLocalError\<close> outside any handler and the call ends there.
\<close>

lemma formatter_exit_is_recorded:
  "process_container_zip
     (example_env\<lparr>run_xmllint := (\<lambda>xml_string. Exited 1 [] ''parser error'')\<rparr>)
     ''in'' ''out'' ''acme.zip'' start =
     Returned
       \<lparr>found_first_atomzip = True,
        formatted_xml_string = None,
        converted_foxml_path = Some ''out/acme/acme_1/foxml.xml'',
        bag_name_and_new_foxml = [(''acme_1'', ''out/acme/acme_1/foxml.xml'')],
        printed =
          [''acme_1 contains a managed FOXML file. Making it inline.'',
           ''There was an error with converting acme_1'' @ [CHR 0x27] @
           ''s FOXML to inline; conversion will be skipped: AttributeError'',
           ''Error occurred while formatting XML:'', ''parser error'',
           ''An error occurred: UnboundLocalError''],
        files =
          ([''out'', ''out/acme'', ''out/acme/acme_1''],
           [(''out/acme/acme_1/foxml.xml'', [])])\<rparr>"
  by code_simp

lemma formatter_timeout_ends_the_call:
  "process_container_zip
     (example_env\<lparr>run_xmllint := (\<lambda>xml_string. TimeoutExpired)\<rparr>)
     ''in'' ''out'' ''acme.zip'' start =
     Raised UnboundLocalError
       \<lparr>found_first_atomzip = True,
        formatted_xml_string = None,
        converted_foxml_path = None,
        bag_name_and_new_foxml = [],
        printed =
          [''acme_1 contains a managed FOXML file. Making it inline.'',
           ''There was an error with converting acme_1'' @ [CHR 0x27] @
           ''s FOXML to inline; conversion will be skipped: AttributeError'',
           ''Process took too long to execute.''],
        files = ([''out'', ''out/acme''], [])\<rparr>"
  by code_simp

end
